theory Spec2Isabelle
  imports Main "HOL-Library.Word"
begin

unbundle bit_operations_syntax

section \<open>Run-time values shared by the four utilities\<close>

text \<open>
  The repository holds four independent Go programs: \<^verbatim>\<open>myWc\<close>, \<^verbatim>\<open>myRotate\<close>,
  \<^verbatim>\<open>myXargs\<close> and \<^verbatim>\<open>myFind\<close>. Go strings are byte sequences, so a string is a
  \<^typ>\<open>string\<close> (a list of 8-bit characters). An \<^verbatim>\<open>error\<close> value and a run-time panic are
  data: every \<^verbatim>\<open>panic\<close>, every failed index and every \<^verbatim>\<open>os.Exit\<close> of the source is a
  branch of the model.
\<close>

datatype error =
    ErrNotExist
  | ErrPermission
  | ErrIsDir
  | ErrNoSpace
  | ErrTooLong
  | ErrExit nat
  | ErrNotFound
  | ErrorString string

datatype panic =
    PanicError error
  | PanicString string
  | IndexOutOfRange nat nat
  | SliceBounds nat nat
  | NilDereference

text \<open>
  A fatal error of the Go runtime is not a panic: the runtime throws it and the process
  dies. The one the programs can meet is a concurrent access to a map (\<^verbatim>\<open>concurrent map
  iteration and map write\<close>, \<^verbatim>\<open>concurrent map writes\<close>).
\<close>

datatype fatal = ConcurrentMapAccess

datatype status = Finished | Exited nat | Panicked panic | Thrown fatal

text \<open>
  The index expression \<^verbatim>\<open>xs[i]\<close> and the slice expression \<^verbatim>\<open>xs[lo:]\<close> of Go, with
  their bound checks: \<^verbatim>\<open>index out of range [i] with length n\<close> and
  \<^verbatim>\<open>slice bounds out of range [lo:n]\<close>.
\<close>

definition go_index :: "'a list \<Rightarrow> nat \<Rightarrow> panic + 'a" where
  "go_index xs i = (if i < length xs then Inr (xs ! i) else Inl (IndexOutOfRange i (length xs)))"

definition go_slice_from :: "'a list \<Rightarrow> nat \<Rightarrow> panic + 'a list" where
  "go_slice_from xs lo =
     (if lo \<le> length xs then Inr (drop lo xs) else Inl (SliceBounds lo (length xs)))"

subsection \<open>bufio.Scanner with the default split function (ScanLines)\<close>

text \<open>
  A reader delivers \<open>data\<close> and then ends, either with end of file (\<open>failure = None\<close>) or
  with a read error. The scanner cuts the data at each line feed, drops one trailing
  carriage return from a line, and delivers a last line that has no line feed. Its buffer
  grows to \<open>MaxScanTokenSize\<close> bytes and no further: a line that does not fit, line feed
  included, stops the scan with \<open>ErrTooLong\<close>. \<open>Scan_all\<close> gives the tokens that successive
  calls of \<^verbatim>\<open>Scan\<close> deliver and the final value of \<^verbatim>\<open>Err()\<close>.
\<close>

record reader =
  data :: string
  failure :: "error option"

definition MaxScanTokenSize :: nat where
  "MaxScanTokenSize = 64 * 1024"

definition LF :: char where
  "LF = CHR 0x0A"

definition CR :: char where
  "CR = CHR 0x0D"

definition dropCR :: "string \<Rightarrow> string" where
  "dropCR l = (if l \<noteq> [] \<and> last l = CR then butlast l else l)"

definition line_head :: "string \<Rightarrow> string" where
  "line_head bs = takeWhile (\<lambda>c. c \<noteq> LF) bs"

definition line_rest :: "string \<Rightarrow> string" where
  "line_rest bs = drop 1 (dropWhile (\<lambda>c. c \<noteq> LF) bs)"

function Scan_all :: "string \<Rightarrow> error option \<Rightarrow> string list \<times> error option" where
  "Scan_all bs fl =
     (if bs = [] then ([], fl)
      else if MaxScanTokenSize \<le> length (line_head bs) then ([], Some ErrTooLong)
      else (case Scan_all (line_rest bs) fl of (ts, e) \<Rightarrow> (dropCR (line_head bs) # ts, e)))"
  by pat_completeness auto
termination
proof (relation "measure (\<lambda>(bs, fl). length bs)")
  show "wf (measure (\<lambda>(bs, fl). length bs))"
    by simp
next
  fix bs :: string and fl :: "error option"
  assume "bs \<noteq> []"
  moreover have "length (dropWhile (\<lambda>c. c \<noteq> LF) bs) \<le> length bs"
    by (rule length_dropWhile_le)
  ultimately show "((line_rest bs, fl), (bs, fl)) \<in> measure (\<lambda>(bs, fl). length bs)"
    by (cases bs) (auto simp: line_rest_def)
qed

text \<open>
  The lines of a text with no bound on their length, as the scanner is meant to read them:
  \<open>raw_lines\<close> cuts at each line feed, \<open>text_lines\<close> drops the carriage returns too.
\<close>

function raw_lines :: "string \<Rightarrow> string list" where
  "raw_lines bs = (if bs = [] then [] else line_head bs # raw_lines (line_rest bs))"
  by pat_completeness auto
termination
proof (relation "measure length")
  show "wf (measure (length :: string \<Rightarrow> nat))"
    by simp
next
  fix bs :: string
  assume "bs \<noteq> []"
  moreover have "length (dropWhile (\<lambda>c. c \<noteq> LF) bs) \<le> length bs"
    by (rule length_dropWhile_le)
  ultimately show "(line_rest bs, bs) \<in> measure length"
    by (cases bs) (auto simp: line_rest_def)
qed

definition text_lines :: "string \<Rightarrow> string list" where
  "text_lines bs = map dropCR (raw_lines bs)"

definition fits :: "string \<Rightarrow> bool" where
  "fits l = (length l < MaxScanTokenSize)"

declare Scan_all.simps [simp del] raw_lines.simps [simp del]

section \<open>myXargs\<close>

text \<open>
  \<^verbatim>\<open>exec.Command(name, args...).CombinedOutput()\<close> is the environment's: it gives the
  captured output and the error, if any. The result of \<open>main\<close> records the command that
  was built and run, if the program got that far.

  The call is \<^verbatim>\<open>exec.Command(arr[0], arr[1:]...)\<close>. The Go specification orders the
  function calls of an expression, not its index and slice expressions, so which of the two
  bound checks comes first is the compiler's choice. The gc compiler evaluates the slice
  expression into a temporary before it builds the call (\<open>gc_order\<close>).
\<close>

datatype eval_order = IndexFirst | SliceFirst

definition gc_order :: eval_order where
  "gc_order = SliceFirst"

definition command_operands :: "eval_order \<Rightarrow> string list \<Rightarrow> panic + string \<times> string list" where
  "command_operands ord arr =
     (case ord of
        IndexFirst \<Rightarrow>
          (case go_index arr 0 of
             Inl p \<Rightarrow> Inl p
           | Inr c \<Rightarrow> (case go_slice_from arr 1 of Inl p \<Rightarrow> Inl p | Inr av \<Rightarrow> Inr (c, av)))
      | SliceFirst \<Rightarrow>
          (case go_slice_from arr 1 of
             Inl p \<Rightarrow> Inl p
           | Inr av \<Rightarrow> (case go_index arr 0 of Inl p \<Rightarrow> Inl p | Inr c \<Rightarrow> Inr (c, av))))"

record xargs_result =
  xstatus :: status
  command :: "(string \<times> string list) option"
  xstdout :: string

definition xargs_stop :: "panic \<Rightarrow> xargs_result" where
  "xargs_stop p = \<lparr>xstatus = Panicked p, command = None, xstdout = []\<rparr>"

definition myXargs_main ::
  "(string \<Rightarrow> string list \<Rightarrow> string \<times> error option) \<Rightarrow> eval_order \<Rightarrow> string list \<Rightarrow> reader
     \<Rightarrow> xargs_result"
where
  "myXargs_main exec ord Args stdin =
     (case go_slice_from Args 1 of
        Inl p \<Rightarrow> xargs_stop p
      | Inr base \<Rightarrow>
          (case Scan_all (data stdin) (failure stdin) of
             (ls, Some e) \<Rightarrow> xargs_stop (PanicError e)
           | (ls, None) \<Rightarrow>
               (case command_operands ord (base @ ls) of
                  Inl p \<Rightarrow> xargs_stop p
                | Inr (c, av) \<Rightarrow>
                    (case exec c av of
                       (out, Some e) \<Rightarrow>
                         \<lparr>xstatus = Panicked (PanicError e), command = Some (c, av), xstdout = []\<rparr>
                     | (out, None) \<Rightarrow>
                         \<lparr>xstatus = Finished, command = Some (c, av), xstdout = out\<rparr>))))"

section \<open>Files and the file system\<close>

text \<open>
  \<^verbatim>\<open>fs.FileInfo\<close> as far as the programs read it: the base name, the mode bits
  (\<^verbatim>\<open>fs.FileMode\<close>, a 32-bit value) and the modification time as Unix seconds
  (\<^verbatim>\<open>ModTime().Unix()\<close>, an \<^verbatim>\<open>int64\<close>). The mode constants are those of package
  \<^verbatim>\<open>io/fs\<close>.
\<close>

record FileInfo =
  Name :: string
  Mode :: "32 word"
  ModTime :: "64 word"

definition ModeDir :: "32 word" where
  "ModeDir = 0x80000000"

definition ModeSymlink :: "32 word" where
  "ModeSymlink = 0x08000000"

definition ModeType :: "32 word" where
  "ModeType = 0x8F280000"

definition ModePerm :: "32 word" where
  "ModePerm = 0x1FF"

definition IsDir :: "FileInfo \<Rightarrow> bool" where
  "IsDir fi = (Mode fi AND ModeDir \<noteq> 0)"

definition IsRegular :: "FileInfo \<Rightarrow> bool" where
  "IsRegular fi = (Mode fi AND ModeType = 0)"

text \<open>
  A disk maps each path, as the program writes it, to the file it names or to the error
  that resolving it gives. A file has its metadata, the error \<^verbatim>\<open>os.Open\<close> gives for it
  (if any) and the bytes a reader of it delivers. The empty path names nothing:
  \<^verbatim>\<open>stat("")\<close> fails with \<^verbatim>\<open>ENOENT\<close> on every system.
\<close>

record node =
  info :: FileInfo
  open_error :: "error option"
  content :: reader

type_synonym disk = "string \<Rightarrow> error + node"

definition os_Stat :: "disk \<Rightarrow> string \<Rightarrow> error + FileInfo" where
  "os_Stat d path =
     (if path = [] then Inl ErrNotExist
      else (case d path of Inl e \<Rightarrow> Inl e | Inr f \<Rightarrow> Inr (info f)))"

definition os_Open :: "disk \<Rightarrow> string \<Rightarrow> error + reader" where
  "os_Open d path =
     (if path = [] then Inl ErrNotExist
      else (case d path of
              Inl e \<Rightarrow> Inl e
            | Inr f \<Rightarrow> (case open_error f of Some e \<Rightarrow> Inl e | None \<Rightarrow> Inr (content f))))"

text \<open>What the programs write to standard error: an error value, or a formatted line.\<close>

datatype diag = DiagError error | DiagText string

section \<open>UTF-8 decoding and strings.Fields\<close>

text \<open>
  \<^verbatim>\<open>utf8.DecodeRuneInString\<close>: the code point at the head of a byte string and the number
  of bytes it takes. A byte that starts no well-formed encoding is the code point
  \<^verbatim>\<open>RuneError\<close> of width 1. \<open>utf8_first\<close> is the table \<^verbatim>\<open>first\<close> of package
  \<^verbatim>\<open>unicode/utf8\<close> for the lead bytes of multi-byte encodings: the size and the range
  accepted for the second byte.
\<close>

definition RuneError :: nat where
  "RuneError = 0xFFFD"

definition RuneSelf :: nat where
  "RuneSelf = 0x80"

definition utf8_first :: "nat \<Rightarrow> (nat \<times> nat \<times> nat) option" where
  "utf8_first c =
     (if 0xC2 \<le> c \<and> c \<le> 0xDF then Some (2, 0x80, 0xBF)
      else if c = 0xE0 then Some (3, 0xA0, 0xBF)
      else if 0xE1 \<le> c \<and> c \<le> 0xEC then Some (3, 0x80, 0xBF)
      else if c = 0xED then Some (3, 0x80, 0x9F)
      else if 0xEE \<le> c \<and> c \<le> 0xEF then Some (3, 0x80, 0xBF)
      else if c = 0xF0 then Some (4, 0x90, 0xBF)
      else if 0xF1 \<le> c \<and> c \<le> 0xF3 then Some (4, 0x80, 0xBF)
      else if c = 0xF4 then Some (4, 0x80, 0x8F)
      else None)"

fun DecodeRune :: "nat list \<Rightarrow> nat \<times> nat" where
  "DecodeRune [] = (RuneError, 0)"
| "DecodeRune (s0 # rest) =
     (if s0 < RuneSelf then (s0, 1)
      else (case utf8_first s0 of
              None \<Rightarrow> (RuneError, 1)
            | Some (sz, lo, hi) \<Rightarrow>
                if length rest + 1 < sz then (RuneError, 1)
                else if rest ! 0 < lo \<or> hi < rest ! 0 then (RuneError, 1)
                else if sz \<le> 2 then ((s0 mod 32) * 64 + rest ! 0 mod 64, 2)
                else if rest ! 1 < 0x80 \<or> 0xBF < rest ! 1 then (RuneError, 1)
                else if sz \<le> 3 then
                  ((s0 mod 16) * 4096 + (rest ! 0 mod 64) * 64 + rest ! 1 mod 64, 3)
                else if rest ! 2 < 0x80 \<or> 0xBF < rest ! 2 then (RuneError, 1)
                else
                  ((s0 mod 8) * 262144 + (rest ! 0 mod 64) * 4096 + (rest ! 1 mod 64) * 64
                     + rest ! 2 mod 64, 4)))"

definition rune_width :: "string \<Rightarrow> nat" where
  "rune_width s = snd (DecodeRune (map of_char s))"

definition rune_head :: "string \<Rightarrow> nat" where
  "rune_head s = fst (DecodeRune (map of_char s))"

text \<open>The code points of a string with the bytes of each, as a \<^verbatim>\<open>range\<close> loop reads them.\<close>

function decode_runes :: "string \<Rightarrow> (nat \<times> string) list" where
  "decode_runes s =
     (if s = [] then []
      else (rune_head s, take (rune_width s) s) # decode_runes (drop (rune_width s) s))"
  by pat_completeness auto
termination
proof (relation "measure length")
  show "wf (measure (length :: string \<Rightarrow> nat))"
    by simp
next
  fix s :: string
  assume "s \<noteq> []"
  then have "0 < rune_width s"
    unfolding rune_width_def by (cases s) (auto split: option.splits)
  with \<open>s \<noteq> []\<close> show "(drop (rune_width s) s, s) \<in> measure length"
    by simp
qed

definition RuneCountInString :: "string \<Rightarrow> nat" where
  "RuneCountInString s = length (decode_runes s)"

text \<open>\<^verbatim>\<open>unicode.IsSpace\<close>: the white space of Latin-1 and the \<^verbatim>\<open>White_Space\<close> table.\<close>

definition IsSpace :: "nat \<Rightarrow> bool" where
  "IsSpace r =
     (if r \<le> 0xFF then (0x09 \<le> r \<and> r \<le> 0x0D) \<or> r = 0x20 \<or> r = 0x85 \<or> r = 0xA0
      else r = 0x1680 \<or> (0x2000 \<le> r \<and> r \<le> 0x200A) \<or> r = 0x2028 \<or> r = 0x2029
           \<or> r = 0x202F \<or> r = 0x205F \<or> r = 0x3000)"

text \<open>
  \<^verbatim>\<open>strings.FieldsFunc\<close>: the maximal runs of code points that are not separators.
  \<open>cur\<close> holds the bytes of the field being read (empty when no field is open).
  \<^verbatim>\<open>strings.Fields\<close> is \<^verbatim>\<open>FieldsFunc\<close> with \<^verbatim>\<open>unicode.IsSpace\<close>; its fast path for
  ASCII strings gives the same fields.
\<close>

fun field_spans :: "(nat \<Rightarrow> bool) \<Rightarrow> string \<Rightarrow> (nat \<times> string) list \<Rightarrow> string list" where
  "field_spans f cur [] = (if cur = [] then [] else [cur])"
| "field_spans f cur ((r, bs) # rs) =
     (if f r then (if cur = [] then field_spans f [] rs else cur # field_spans f [] rs)
      else field_spans f (cur @ bs) rs)"

definition FieldsFunc :: "string \<Rightarrow> (nat \<Rightarrow> bool) \<Rightarrow> string list" where
  "FieldsFunc s f = field_spans f [] (decode_runes s)"

definition Fields :: "string \<Rightarrow> string list" where
  "Fields s = FieldsFunc s IsSpace"

section \<open>myWc\<close>

text \<open>
  \<open>validateFlags\<close> counts the flags in an \<^verbatim>\<open>int8\<close> and returns the mode: 3 for lines,
  2 for words, 1 for characters.
\<close>

definition validateFlags :: "bool \<Rightarrow> bool \<Rightarrow> bool \<Rightarrow> error + 8 word" where
  "validateFlags lMode wMode mMode =
     (let (count, mode) = (0 :: 8 word, 0 :: 8 word);
          (count, mode) = (if lMode then (count + 1, 3) else (count, mode));
          (count, mode) = (if wMode then (count + 1, 2) else (count, mode));
          (count, mode) = (if mMode then (count + 1, 1) else (count, mode))
      in if 1 <s count then Inl (ErrorString ''Only one of -l, -w, -m can be specified'')
         else if count = 0 then Inr 2
         else Inr mode)"

text \<open>
  The shared map of results and the diagnostics written so far. The count \<^verbatim>\<open>res\<close> is a
  Go \<^verbatim>\<open>int\<close> of 64 bits. It is an \<^typ>\<open>int\<close> here: it lies between 0 and the length
  of the file plus one (lemma \<open>wc_count_bound\<close> below), so the machine integer does not
  wrap.
\<close>

record wc_state =
  files :: "string \<rightharpoonup> int"
  wc_stderr :: "diag list"

definition handleFileErr :: "string \<Rightarrow> wc_state \<Rightarrow> error \<Rightarrow> wc_state" where
  "handleFileErr path st err =
     st\<lparr>wc_stderr := wc_stderr st @ [DiagError err], files := (files st)(path := None)\<rparr>"

text \<open>The body of the scanning loop: one step of the \<^verbatim>\<open>switch\<close> on the mode.\<close>

definition count_line :: "8 word \<Rightarrow> int \<Rightarrow> string \<Rightarrow> int" where
  "count_line mode res line =
     (if mode = 3 then res + 1
      else if mode = 2 then res + int (length (Fields line))
      else if mode = 1 then res + (int (RuneCountInString line) + 1)
      else res)"

definition processFile :: "disk \<Rightarrow> string \<Rightarrow> 8 word \<Rightarrow> wc_state \<Rightarrow> wc_state" where
  "processFile d path mode st =
     (case os_Stat d path of
        Inl err \<Rightarrow> handleFileErr path st err
      | Inr fi \<Rightarrow>
          if \<not> IsRegular fi then
            st\<lparr>wc_stderr := wc_stderr st @ [DiagText (path @ '' is not a file'' @ [LF])],
               files := (files st)(path := None)\<rparr>
          else
            (case os_Open d path of
               Inl err \<Rightarrow> handleFileErr path st err
             | Inr rd \<Rightarrow>
                 st\<lparr>files := (files st)(path \<mapsto>
                      foldl (count_line mode) 0 (fst (Scan_all (data rd) (failure rd))))\<rparr>))"

text \<open>
  \<open>main\<close> after \<^verbatim>\<open>flag.Parse()\<close>: the three flags and the positional arguments. It
  starts one goroutine per key of the map, waits for all of them and prints the map.

  Each goroutine prints at most one diagnostic and then deletes or writes its own key, so
  the runs in which no two map operations meet are those of the goroutines taken one
  after the other in some order: \<open>goroutine_order\<close> (a list that is not an arrangement of
  the distinct arguments stands for their order of first occurrence). But \<open>main\<close> ranges
  over the map while the goroutines it has started already delete from it and write to it;
  the deletions take no lock. When the runtime sees two of these operations meet it throws
  a fatal error and the process dies with nothing printed on standard output:
  \<open>map_collision = Some k\<close> says that it does so when the first \<open>k\<close> goroutines of the
  order have printed their diagnostics. A collision the runtime does not see is not
  modelled.
\<close>

record wc_schedule =
  goroutine_order :: "string list"
  map_collision :: "nat option"

definition wc_paths :: "wc_schedule \<Rightarrow> string list \<Rightarrow> string list" where
  "wc_paths sched args =
     (if distinct (goroutine_order sched) \<and> set (goroutine_order sched) = set args
      then goroutine_order sched else remdups args)"

definition wc_start :: "string list \<Rightarrow> wc_state" where
  "wc_start args = \<lparr>files = fold (\<lambda>el m. m(el \<mapsto> 0)) args Map.empty, wc_stderr = []\<rparr>"

record wc_result =
  wc_status :: status
  wc_final :: wc_state

definition myWc_main ::
  "disk \<Rightarrow> wc_schedule \<Rightarrow> bool \<Rightarrow> bool \<Rightarrow> bool \<Rightarrow> string list \<Rightarrow> wc_result"
where
  "myWc_main d sched lMode wMode mMode args =
     (case validateFlags lMode wMode mMode of
        Inl err \<Rightarrow>
          \<lparr>wc_status = Panicked (PanicError err),
           wc_final = \<lparr>files = Map.empty, wc_stderr = []\<rparr>\<rparr>
      | Inr mode \<Rightarrow>
          if length args < 1 then
            \<lparr>wc_status = Panicked (PanicString ''No files provided''),
             wc_final = \<lparr>files = Map.empty, wc_stderr = []\<rparr>\<rparr>
          else
            (let paths = wc_paths sched args in
             case map_collision sched of
               None \<Rightarrow>
                 \<lparr>wc_status = Finished,
                  wc_final = fold (\<lambda>path st. processFile d path mode st) paths (wc_start args)\<rparr>
             | Some k \<Rightarrow>
                 if 0 < k \<and> k \<le> length paths then
                   \<lparr>wc_status = Thrown ConcurrentMapAccess,
                    wc_final =
                      \<lparr>files = Map.empty,
                       wc_stderr =
                         wc_stderr (fold (\<lambda>path st. processFile d path mode st) (take k paths)
                                      (wc_start args))\<rparr>\<rparr>
                 else
                   \<lparr>wc_status = Finished,
                    wc_final =
                      fold (\<lambda>path st. processFile d path mode st) paths (wc_start args)\<rparr>))"

section \<open>myFind\<close>

text \<open>
  Standard output is the list of the texts printed, one element per call. \<open>processExt\<close>
  prints the path once for every extension it ends with.
\<close>

definition HasSuffix :: "string \<Rightarrow> string \<Rightarrow> bool" where
  "HasSuffix s suffix =
     (length suffix \<le> length s \<and> drop (length s - length suffix) s = suffix)"

definition processExt :: "string \<Rightarrow> string list \<Rightarrow> string list" where
  "processExt path exts =
     concat (map (\<lambda>ext. if HasSuffix path ext then [path @ [LF]] else []) exts)"

text \<open>
  \<open>printEntity\<close>: \<^verbatim>\<open>filepath.EvalSymlinks\<close> is the environment's. The source calls it on
  \<^verbatim>\<open>info.Name()\<close>, the base name of the entry, not on the walk path.
\<close>

definition printEntity ::
  "(string \<Rightarrow> error + string) \<Rightarrow> string \<Rightarrow> FileInfo \<Rightarrow> bool \<Rightarrow> bool \<Rightarrow> bool \<Rightarrow> string list
     \<Rightarrow> string list"
where
  "printEntity EvalSymlinks path fi dirMode fMode slMode exts =
     (if IsDir fi \<and> dirMode then [path @ [LF]]
      else if IsRegular fi \<and> fMode then
        (if 0 < length exts then processExt path exts else [path @ [LF]])
      else if Mode fi AND ModeSymlink \<noteq> 0 \<and> slMode then
        (let origFile = (case EvalSymlinks (Name fi) of Inl err \<Rightarrow> ''[broken]'' | Inr t \<Rightarrow> t)
         in [path @ '' -> '' @ origFile @ [LF]])
      else [])"

text \<open>
  The function \<open>main\<close> hands to \<^verbatim>\<open>filepath.Walk\<close>. \<^verbatim>\<open>Walk\<close> passes a nil
  \<^verbatim>\<open>FileInfo\<close> when it could not \<^verbatim>\<open>lstat\<close> the entry; the function calls
  \<^verbatim>\<open>info.Mode()\<close> first, which panics then. It gives the texts for standard output and
  for standard error.
\<close>

definition walkFn ::
  "(string \<Rightarrow> error + string) \<Rightarrow> bool \<Rightarrow> bool \<Rightarrow> bool \<Rightarrow> string list \<Rightarrow> string
     \<Rightarrow> FileInfo option \<Rightarrow> panic + string list \<times> diag list"
where
  "walkFn EvalSymlinks dirMode fMode slMode exts path info_opt =
     (case info_opt of
        None \<Rightarrow> Inl NilDereference
      | Some fi \<Rightarrow>
          if Mode fi AND ModePerm AND 0x100 \<noteq> 0 then
            Inr (printEntity EvalSymlinks path fi dirMode fMode slMode exts, [])
          else Inr ([], [DiagText (path @ '': Permission denied'' @ [LF])]))"

text \<open>
  The world of the lister: the disk (for \<^verbatim>\<open>os.Stat\<close> of the root), the entries
  \<^verbatim>\<open>filepath.Walk\<close> visits from a root, in its order, and the resolution of symbolic links
  of paths relative to the working directory. The function given to \<^verbatim>\<open>Walk\<close> always
  returns nil, so the visits do not depend on it.
\<close>

record find_world =
  find_disk :: disk
  Walk_visits :: "string \<Rightarrow> (string \<times> FileInfo option) list"
  find_EvalSymlinks :: "string \<Rightarrow> error + string"

record find_result =
  find_status :: status
  find_stdout :: "string list"
  find_stderr :: "diag list"

fun run_walk ::
  "(string \<Rightarrow> FileInfo option \<Rightarrow> panic + string list \<times> diag list)
     \<Rightarrow> (string \<times> FileInfo option) list \<Rightarrow> find_result \<Rightarrow> find_result"
where
  "run_walk fn [] acc = acc"
| "run_walk fn ((path, info_opt) # visits) acc =
     (case fn path info_opt of
        Inl p \<Rightarrow> acc\<lparr>find_status := Panicked p\<rparr>
      | Inr (out, err) \<Rightarrow>
          run_walk fn visits
            (acc\<lparr>find_stdout := find_stdout acc @ out, find_stderr := find_stderr acc @ err\<rparr>))"

definition find_stop :: "panic \<Rightarrow> find_result" where
  "find_stop p = \<lparr>find_status = Panicked p, find_stdout = [], find_stderr = []\<rparr>"

text \<open>\<open>main\<close> after \<^verbatim>\<open>flag.Parse()\<close>: the flags, the extensions and the positional arguments.\<close>

definition myFind_main ::
  "find_world \<Rightarrow> bool \<Rightarrow> bool \<Rightarrow> bool \<Rightarrow> string list \<Rightarrow> string list \<Rightarrow> find_result"
where
  "myFind_main w slMode fMode dirMode exts args =
     (if \<not> fMode \<and> 0 < length exts then
        find_stop (PanicError (ErrorString ''Need -f to specify extensions''))
      else
        (let none = (\<not> slMode \<and> \<not> fMode \<and> \<not> dirMode);
             slMode = (slMode \<or> none); fMode = (fMode \<or> none); dirMode = (dirMode \<or> none)
         in if length args \<noteq> 1 then
              find_stop (PanicString ''One directory for searching must be provided'')
            else
              (case os_Stat (find_disk w) (args ! 0) of
                 Inl err \<Rightarrow> find_stop (PanicError err)
               | Inr rootInfo \<Rightarrow>
                   if \<not> IsDir rootInfo then
                     find_stop (PanicString (args ! 0 @ '' is not a directory''))
                   else
                     run_walk (walkFn (find_EvalSymlinks w) dirMode fMode slMode exts)
                       (Walk_visits w (args ! 0))
                       \<lparr>find_status = Finished, find_stdout = [], find_stderr = []\<rparr>)))"

section \<open>myRotate\<close>

subsection \<open>Formatting and flags\<close>

text \<open>The verb \<^verbatim>\<open>%d\<close> of \<^verbatim>\<open>fmt.Sprintf\<close>: a signed integer in decimal.\<close>

definition digit :: "nat \<Rightarrow> char" where
  "digit n = ''0123456789'' ! n"

fun show_nat :: "nat \<Rightarrow> string" where
  "show_nat n = (if n < 10 then [digit n] else show_nat (n div 10) @ [digit (n mod 10)])"

declare show_nat.simps [simp del]

definition show_int :: "int \<Rightarrow> string" where
  "show_int i = (if i < 0 then CHR ''-'' # show_nat (nat (- i)) else show_nat (nat i))"

text \<open>
  \<^verbatim>\<open>strings.CutSuffix\<close>, and \<open>getArchiveName\<close> with the diagnostic it writes to standard
  error.
\<close>

definition CutSuffix :: "string \<Rightarrow> string \<Rightarrow> string \<times> bool" where
  "CutSuffix s suffix =
     (if \<not> HasSuffix s suffix then (s, False) else (take (length s - length suffix) s, True))"

definition getArchiveName :: "FileInfo \<Rightarrow> (string \<times> bool) \<times> diag list" where
  "getArchiveName fi =
     (let stamp = sint (ModTime fi) in
      case CutSuffix (Name fi) ''.log'' of
        (name, False) \<Rightarrow>
          (([], False), [DiagText (''Wrong file format, only .log accepted'' @ [LF])])
      | (name, True) \<Rightarrow> ((name @ ''_'' @ show_int stamp @ ''.tar.gz'', True), []))"

text \<open>
  \<^verbatim>\<open>flag.Parse()\<close> for a flag set whose only flag is the string flag \<^verbatim>\<open>-a\<close>, as
  \<^verbatim>\<open>FlagSet.parseOne\<close> reads the arguments one flag at a time. It gives the value of the
  flag and the arguments left, or the code of \<^verbatim>\<open>os.Exit\<close>: 0 after \<^verbatim>\<open>-h\<close> or
  \<^verbatim>\<open>-help\<close>, 2 after a flag error. \<open>split_flag\<close> cuts a flag at its first \<^verbatim>\<open>=\<close> that is
  not its first character.
\<close>

definition split_flag :: "string \<Rightarrow> string \<times> bool \<times> string" where
  "split_flag name =
     (if CHR ''='' \<in> set (tl name) then
        (hd name # takeWhile (\<lambda>c. c \<noteq> CHR ''='') (tl name), True,
         drop 1 (dropWhile (\<lambda>c. c \<noteq> CHR ''='') (tl name)))
      else (name, False, []))"

fun flag_Parse :: "string \<Rightarrow> string list \<Rightarrow> nat + string \<times> string list" where
  "flag_Parse dest [] = Inr (dest, [])"
| "flag_Parse dest (s # rest) =
     (if length s < 2 \<or> s ! 0 \<noteq> CHR ''-'' then Inr (dest, s # rest)
      else if s = ''--'' then Inr (dest, rest)
      else
        (let name = drop (if s ! 1 = CHR ''-'' then 2 else 1) s in
         if name = [] \<or> hd name = CHR ''-'' \<or> hd name = CHR ''='' then Inl 2
         else
           (case split_flag name of
              (nm, hasValue, val) \<Rightarrow>
                if nm \<noteq> ''a'' then (if nm = ''help'' \<or> nm = ''h'' then Inl 0 else Inl 2)
                else if hasValue then flag_Parse val rest
                else (case rest of [] \<Rightarrow> Inl 2 | v # rest' \<Rightarrow> flag_Parse v rest'))))"

subsection \<open>The environment of the archiver\<close>

text \<open>
  What the archiver meets outside its own code: whether \<^verbatim>\<open>os.Create\<close> of a name fails
  (otherwise the metadata of the new file); whether building the stream for a source path
  breaks at a step after the source is open, and with which error (whether the source
  opens and reads is the disk's to say, so a fault at \<open>StepOpen\<close> is none); the bytes that
  are in the archive file once the stream is complete or has broken; and the outcome of an
  external command (\<^verbatim>\<open>CombinedOutput\<close>: the output and the error, if any).
\<close>

datatype fill_step = StepOpen | StepHeader | StepWriteHeader | StepCopy | StepClose

record rotate_env =
  create_result :: "string \<Rightarrow> error + FileInfo"
  stream_fault :: "string \<Rightarrow> (fill_step \<times> error) option"
  archive_bytes :: "string \<Rightarrow> fill_step option \<Rightarrow> string"
  run_command :: "string \<Rightarrow> string list \<Rightarrow> disk \<Rightarrow> string \<times> error option"

record rotate_state =
  rot_disk :: disk
  rot_stdout :: "string list"
  rot_stderr :: "diag list"

subsection \<open>The functions of the archiver\<close>

text \<open>
  \<open>fillArchive\<close> gives the error it returns, what it prints, and the step at which the
  stream broke (\<open>None\<close> when it is complete). It returns the error of \<^verbatim>\<open>os.Open\<close>, of
  \<^verbatim>\<open>tar.FileInfoHeader\<close>, of \<^verbatim>\<open>WriteHeader\<close> and of \<^verbatim>\<open>io.Copy\<close> (a read error of
  the source, or a write error). The two writers are closed by \<^verbatim>\<open>defer\<close>, which drops
  the error of \<^verbatim>\<open>Close\<close>: a stream that breaks there leaves \<open>fillArchive\<close> returning nil.
\<close>

definition fillArchive ::
  "rotate_env \<Rightarrow> disk \<Rightarrow> string \<Rightarrow> FileInfo \<Rightarrow> error option \<times> string list \<times> fill_step option"
where
  "fillArchive env d path fi =
     (case os_Open d path of
        Inl err \<Rightarrow> (Some err, [], Some StepOpen)
      | Inr rd \<Rightarrow>
          (case stream_fault env path of
             Some (StepHeader, err) \<Rightarrow> (Some err, [], Some StepHeader)
           | Some (StepWriteHeader, err) \<Rightarrow> (Some err, [], Some StepWriteHeader)
           | Some (StepCopy, err) \<Rightarrow> (Some err, [], Some StepCopy)
           | other \<Rightarrow>
               (case failure rd of
                  Some err \<Rightarrow> (Some err, [], Some StepCopy)
                | None \<Rightarrow>
                    (None, [''ARCHIVED: '' @ path @ [LF]],
                     (case other of Some (StepClose, err) \<Rightarrow> Some StepClose | _ \<Rightarrow> None)))))"

text \<open>
  \<open>removeArchive\<close> and \<open>moveArchive\<close> run \<^verbatim>\<open>rm\<close> and \<^verbatim>\<open>mv\<close>. When the command
  fails they report its error and the disk stays as it is; when it succeeds the file is
  gone, or is in the destination directory.
\<close>

definition removeArchive :: "rotate_env \<Rightarrow> string \<Rightarrow> rotate_state \<Rightarrow> rotate_state" where
  "removeArchive env name st =
     (case run_command env ''rm'' [name] (rot_disk st) of
        (out, Some err) \<Rightarrow> st\<lparr>rot_stderr := rot_stderr st @ [DiagError err]\<rparr>
      | (out, None) \<Rightarrow>
          st\<lparr>rot_disk := (rot_disk st)(name := Inl ErrNotExist),
             rot_stdout := rot_stdout st @ [out]\<rparr>)"

definition moveArchive :: "rotate_env \<Rightarrow> string \<Rightarrow> string \<Rightarrow> rotate_state \<Rightarrow> rotate_state" where
  "moveArchive env name dest st =
     (case run_command env ''mv'' [name, dest] (rot_disk st) of
        (out, Some err) \<Rightarrow> st\<lparr>rot_stderr := rot_stderr st @ [DiagError err]\<rparr>
      | (out, None) \<Rightarrow>
          st\<lparr>rot_disk := (rot_disk st)
               (name := Inl ErrNotExist, dest @ ''/'' @ name := rot_disk st name),
             rot_stdout := rot_stdout st @ [out]\<rparr>)"

text \<open>
  The body of the goroutine \<open>main\<close> starts for each path. The model runs the goroutines
  one after the other. \<open>new_file\<close> is a file with the given metadata and bytes that opens
  and reads without error.
\<close>

definition new_file :: "FileInfo \<Rightarrow> string \<Rightarrow> node" where
  "new_file ci bytes =
     \<lparr>info = ci, open_error = None, content = \<lparr>data = bytes, failure = None\<rparr>\<rparr>"

definition archive_one :: "rotate_env \<Rightarrow> string \<Rightarrow> string \<Rightarrow> rotate_state \<Rightarrow> rotate_state" where
  "archive_one env dest path st =
     (case os_Stat (rot_disk st) path of
        Inl err \<Rightarrow> st\<lparr>rot_stderr := rot_stderr st @ [DiagError err]\<rparr>
      | Inr fi \<Rightarrow>
          (case getArchiveName fi of
             ((name, False), diags) \<Rightarrow> st\<lparr>rot_stderr := rot_stderr st @ diags\<rparr>
           | ((name, True), diags) \<Rightarrow>
               (case create_result env name of
                  Inl err \<Rightarrow> st\<lparr>rot_stderr := rot_stderr st @ diags @ [DiagError err]\<rparr>
                | Inr ci \<Rightarrow>
                    (let created = (rot_disk st)(name := Inr (new_file ci []))
                     in case fillArchive env created path fi of
                          (res, out, broke) \<Rightarrow>
                            (let st' =
                                   \<lparr>rot_disk =
                                      created(name := Inr (new_file ci (archive_bytes env path broke))),
                                    rot_stdout = rot_stdout st @ [''CREATED: '' @ name @ [LF]] @ out,
                                    rot_stderr = rot_stderr st @ diags\<rparr>
                             in case res of
                                  Some err \<Rightarrow>
                                    removeArchive env name
                                      (st'\<lparr>rot_stderr := rot_stderr st' @ [DiagError err]\<rparr>)
                                | None \<Rightarrow>
                                    if dest \<noteq> [] then moveArchive env name dest st' else st')))))"

record rotate_result =
  rot_status :: status
  rot_files :: "string list"
  rot_final :: rotate_state

definition rotate_stop :: "status \<Rightarrow> disk \<Rightarrow> diag list \<Rightarrow> rotate_result" where
  "rotate_stop s d err =
     \<lparr>rot_status = s, rot_files = [],
      rot_final = \<lparr>rot_disk = d, rot_stdout = [], rot_stderr = err\<rparr>\<rparr>"

text \<open>
  \<open>main\<close> on the argument vector \<^verbatim>\<open>os.Args\<close>. \<open>rot_files\<close> is the list of files the loop
  runs over, empty when \<open>main\<close> stops before the loop. The slice expression
  \<^verbatim>\<open>os.Args[3:]\<close> panics when the vector has fewer than three elements.
\<close>

definition myRotate_main :: "rotate_env \<Rightarrow> string list \<Rightarrow> disk \<Rightarrow> rotate_result" where
  "myRotate_main env Args d =
     (case Args of
        [] \<Rightarrow> rotate_stop (Panicked (SliceBounds 1 0)) d []
      | prog # rest \<Rightarrow>
          (case flag_Parse [] rest of
             Inl code \<Rightarrow> rotate_stop (Exited code) d []
           | Inr (dest, positional) \<Rightarrow>
               (case os_Stat d dest of
                  Inl err \<Rightarrow> rotate_stop (Panicked (PanicError err)) d []
                | Inr destInfo \<Rightarrow>
                    if \<not> IsDir destInfo then
                      rotate_stop Finished d [DiagText (dest @ '' is not a directory'' @ [LF])]
                    else if dest \<noteq> [] \<and> length Args < 3 then
                      rotate_stop (Panicked (SliceBounds 3 (length Args))) d []
                    else
                      (let files = (if dest = [] then drop 1 Args else drop 3 Args) in
                       if length files < 1 then
                         rotate_stop (Panicked (PanicString ''No files provided for archiving'')) d []
                       else
                         \<lparr>rot_status = Finished, rot_files = files,
                          rot_final =
                            fold (archive_one env dest) files
                              \<lparr>rot_disk = d, rot_stdout = [], rot_stderr = []\<rparr>\<rparr>))))"

section \<open>Example inputs\<close>

text \<open>
  A disk with one regular file \<^verbatim>\<open>a.txt\<close> of two lines, and one with a regular file
  \<^verbatim>\<open>big.txt\<close> that is a single line of 65536 bytes. \<open>in_order\<close> is the schedule in
  which the goroutines run in the order of the arguments and no map operations meet.
\<close>

definition regular_file :: "string \<Rightarrow> string \<Rightarrow> node" where
  "regular_file name bytes =
     \<lparr>info = \<lparr>Name = name, Mode = 0x1A4, ModTime = 1700000000\<rparr>, open_error = None,
      content = \<lparr>data = bytes, failure = None\<rparr>\<rparr>"

definition small_disk :: disk where
  "small_disk =
     (\<lambda>p. if p = ''a.txt'' then Inr (regular_file ''a.txt'' ''hello world\<newline>foo\<newline>'')
          else Inl ErrNotExist)"

text \<open>
  An environment for \<^verbatim>\<open>myXargs\<close> that knows the command \<^verbatim>\<open>echo\<close> only: its output is
  its arguments, separated by spaces, and a line feed.
\<close>

fun join_args :: "string list \<Rightarrow> string" where
  "join_args [] = []"
| "join_args [a] = a"
| "join_args (a # b # bs) = a @ '' '' @ join_args (b # bs)"

definition echo_exec :: "string \<Rightarrow> string list \<Rightarrow> string \<times> error option" where
  "echo_exec c av = (if c = ''echo'' then (join_args av @ [LF], None) else ([], Some ErrNotFound))"

definition in_order :: wc_schedule where
  "in_order = \<lparr>goroutine_order = [], map_collision = None\<rparr>"

definition long_line_disk :: disk where
  "long_line_disk =
     (\<lambda>p. if p = ''big.txt''
          then Inr (regular_file ''big.txt'' (replicate MaxScanTokenSize (CHR ''a'')))
          else Inl ErrNotExist)"

text \<open>
  A directory \<^verbatim>\<open>d\<close> that holds the regular file \<^verbatim>\<open>x.txt\<close> and the symbolic link
  \<^verbatim>\<open>link\<close> to \<^verbatim>\<open>x.txt\<close>, seen from the parent of \<^verbatim>\<open>d\<close>: the link resolves to
  \<^verbatim>\<open>d/x.txt\<close>, and the working directory has no entry \<^verbatim>\<open>link\<close>.
\<close>

definition dir_node :: "string \<Rightarrow> node" where
  "dir_node name =
     \<lparr>info = \<lparr>Name = name, Mode = 0x800001ED, ModTime = 1700000000\<rparr>, open_error = None,
      content = \<lparr>data = [], failure = Some ErrIsDir\<rparr>\<rparr>"

definition link_world :: find_world where
  "link_world =
     \<lparr>find_disk =
        (\<lambda>p. if p = ''d'' then Inr (dir_node ''d'')
             else if p = ''d/x.txt'' then Inr (regular_file ''x.txt'' ''text\<newline>'')
             else if p = ''d/link'' then Inr (regular_file ''link'' ''text\<newline>'')
             else Inl ErrNotExist),
      Walk_visits =
        (\<lambda>root. if root = ''d''
           then [(''d'', Some (info (dir_node ''d''))),
                 (''d/link'', Some \<lparr>Name = ''link'', Mode = 0x080001FF, ModTime = 1700000000\<rparr>),
                 (''d/x.txt'', Some (info (regular_file ''x.txt'' ''text\<newline>'')))]
           else []),
      find_EvalSymlinks =
        (\<lambda>p. if p = ''d'' then Inr ''d''
             else if p = ''d/x.txt'' \<or> p = ''d/link'' then Inr ''d/x.txt''
             else Inl ErrNotExist)\<rparr>"

text \<open>
  A working directory with the log files \<^verbatim>\<open>app.log\<close> and \<^verbatim>\<open>-x.log\<close> (the latter named
  as \<^verbatim>\<open>./-x.log\<close>), the log file \<^verbatim>\<open>secret.log\<close> that cannot be opened, and the directory
  \<^verbatim>\<open>backup\<close>. In \<open>plain_env\<close> every operation of the environment succeeds. In \<open>dash_env\<close>
  the disk fills up while \<^verbatim>\<open>io.Copy\<close> writes the stream, and a command fails when its
  first operand starts with a dash, as \<^verbatim>\<open>rm\<close> and \<^verbatim>\<open>mv\<close> do for an operand they read as
  options. In \<open>full_env\<close> the disk fills up later, and the last write of every stream, made
  by \<^verbatim>\<open>Close\<close>, fails.
\<close>

definition log_disk :: disk where
  "log_disk =
     (\<lambda>p. if p = ''app.log'' then Inr (regular_file ''app.log'' ''started\<newline>'')
          else if p = ''secret.log''
            then Inr ((regular_file ''secret.log'' ''key\<newline>'')\<lparr>open_error := Some ErrPermission\<rparr>)
          else if p = ''./-x.log''
            then Inr (regular_file ''-x.log'' ''x\<newline>'')
          else if p = ''backup'' then Inr (dir_node ''backup'')
          else Inl ErrNotExist)"

definition plain_env :: rotate_env where
  "plain_env =
     \<lparr>create_result = (\<lambda>name. Inr \<lparr>Name = name, Mode = 0x1A4, ModTime = 1700000100\<rparr>),
      stream_fault = (\<lambda>path. None),
      archive_bytes =
        (\<lambda>path broke. (case broke of None \<Rightarrow> ''complete '' | Some b \<Rightarrow> ''partial '') @ path),
      run_command = (\<lambda>c args d. ([], None))\<rparr>"

definition dash_env :: rotate_env where
  "dash_env =
     plain_env\<lparr>stream_fault := (\<lambda>path. Some (StepCopy, ErrNoSpace)),
       run_command :=
         (\<lambda>c args d. if args \<noteq> [] \<and> take 1 (hd args) = ''-''
                     then (c @ '': invalid option'' @ [LF], Some (ErrExit 1)) else ([], None))\<rparr>"

definition full_env :: rotate_env where
  "full_env = plain_env\<lparr>stream_fault := (\<lambda>path. Some (StepClose, ErrNoSpace))\<rparr>"

section \<open>Properties\<close>

subsection \<open>The scanner\<close>

lemma too_long_iff: "MaxScanTokenSize \<le> length l \<longleftrightarrow> \<not> fits l"
  by (auto simp: fits_def)

lemma MaxScanTokenSize_pos: "0 < MaxScanTokenSize"
  by (simp add: MaxScanTokenSize_def)

text \<open>The scanner delivers the lines before the first one that does not fit its buffer.\<close>

lemma Scan_all_raw_lines:
  "Scan_all bs fl =
     (map dropCR (takeWhile fits (raw_lines bs)),
      if list_all fits (raw_lines bs) then fl else Some ErrTooLong)"
proof (induction bs rule: raw_lines.induct)
  case (1 bs)
  show ?case
  proof (cases "bs = []")
    case True
    then show ?thesis
      by (simp add: Scan_all.simps raw_lines.simps)
  next
    case False
    note nonempty = this
    have unfold: "raw_lines bs = line_head bs # raw_lines (line_rest bs)"
      using nonempty by (subst raw_lines.simps) simp
    show ?thesis
    proof (cases "fits (line_head bs)")
      case True
      with nonempty 1 show ?thesis
        by (subst Scan_all.simps) (simp add: unfold too_long_iff)
    next
      case False
      with nonempty show ?thesis
        by (subst Scan_all.simps) (simp add: unfold too_long_iff)
    qed
  qed
qed

lemma Scan_all_text_lines:
  assumes "list_all fits (raw_lines bs)"
  shows "Scan_all bs fl = (text_lines bs, fl)"
proof -
  from assms have all: "takeWhile fits (raw_lines bs) = raw_lines bs"
    by (simp add: list_all_iff)
  show ?thesis
    unfolding Scan_all_raw_lines text_lines_def all using assms by simp
qed

lemma raw_lines_replicate:
  "c \<noteq> LF \<Longrightarrow> 0 < n \<Longrightarrow> raw_lines (replicate n c) = [replicate n c]"
  by (subst raw_lines.simps, subst raw_lines.simps) (simp add: line_head_def line_rest_def)

lemmas scan_eval =
  raw_lines.simps text_lines_def line_head_def line_rest_def dropCR_def fits_def
  MaxScanTokenSize_def LF_def CR_def

lemmas utf8_eval =
  Fields_def FieldsFunc_def RuneCountInString_def rune_head_def rune_width_def RuneSelf_def
  IsSpace_def

subsection \<open>myXargs\<close>

lemma command_operands_Nil:
  "command_operands ord [] =
     Inl (case ord of IndexFirst \<Rightarrow> IndexOutOfRange 0 0 | SliceFirst \<Rightarrow> SliceBounds 1 0)"
  by (cases ord) (simp_all add: command_operands_def go_index_def go_slice_from_def)

lemma command_operands_Cons: "command_operands ord (c # av) = Inr (c, av)"
  by (cases ord) (simp_all add: command_operands_def go_index_def go_slice_from_def)

text \<open>
  Claim C10, amended. With no argument after the program name and an empty standard
  input, the combined list is empty and \<open>main\<close> panics on a bound check of that list,
  whatever the environment would do with a command: on the index \<^verbatim>\<open>arr[0]\<close> (index out
  of range) when the index is evaluated first, on the slice \<^verbatim>\<open>arr[1:]\<close> (slice bounds out
  of range) when the slice is, as the gc compiler does. No command has been run.
\<close>

theorem xargs_no_arguments_panics:
  "myXargs_main exec ord [prog] \<lparr>data = [], failure = None\<rparr> =
     \<lparr>xstatus = Panicked (case ord of IndexFirst \<Rightarrow> IndexOutOfRange 0 0
                                    | SliceFirst \<Rightarrow> SliceBounds 1 0),
      command = None, xstdout = []\<rparr>"
  by (simp add: myXargs_main_def go_slice_from_def Scan_all.simps command_operands_Nil
        xargs_stop_def)

theorem xargs_no_arguments_panics_witness:
  "myXargs_main echo_exec IndexFirst [''myXargs''] \<lparr>data = [], failure = None\<rparr> =
     \<lparr>xstatus = Panicked (IndexOutOfRange 0 0), command = None, xstdout = []\<rparr>
   \<and> myXargs_main echo_exec SliceFirst [''myXargs''] \<lparr>data = [], failure = None\<rparr> =
     \<lparr>xstatus = Panicked (SliceBounds 1 0), command = None, xstdout = []\<rparr>"
  using xargs_no_arguments_panics [of echo_exec IndexFirst "''myXargs''"]
    xargs_no_arguments_panics [of echo_exec SliceFirst "''myXargs''"]
  by simp

text \<open>
  The claim as stated fails for the program the gc compiler builds: it dies on the slice
  expression, with \<^verbatim>\<open>slice bounds out of range [1:0]\<close>, not on the index 0.
\<close>

theorem xargs_slice_bounds_counterexample:
  "xstatus (myXargs_main echo_exec gc_order [''myXargs''] \<lparr>data = [], failure = None\<rparr>)
     = Panicked (SliceBounds 1 0)
   \<and> xstatus (myXargs_main echo_exec gc_order [''myXargs''] \<lparr>data = [], failure = None\<rparr>)
     \<noteq> Panicked (IndexOutOfRange 0 0)"
  by (simp add: myXargs_main_def go_slice_from_def go_index_def Scan_all.simps
        command_operands_def gc_order_def xargs_stop_def)

lemma Scan_all_success:
  assumes "Scan_all bs fl = (L, None)"
  shows "L = text_lines bs"
proof -
  from assms have "list_all fits (raw_lines bs)"
    by (simp add: Scan_all_raw_lines split: if_splits)
  from Scan_all_text_lines [OF this, of fl] assms show ?thesis
    by simp
qed

text \<open>
  Claim C6. When standard input is read to its end without error, the scanned lines \<open>L\<close>
  are the lines of the input, and \<open>main\<close> is the run of the command \<open>c\<close> with the
  arguments \<open>av\<close>, where \<open>c\<close> is the first element of \<open>A @ L\<close> and \<open>av\<close> the other
  elements: it panics with the error of the command, or prints the output of the command.
  (When \<open>A @ L\<close> is empty it panics on the bound check and runs nothing.)
\<close>

theorem xargs_command:
  assumes "Scan_all (data stdin) (failure stdin) = (L, None)"
  shows "L = text_lines (data stdin)
       \<and> myXargs_main exec ord (prog # A) stdin =
           (case A @ L of
              [] \<Rightarrow>
                \<lparr>xstatus = Panicked (case ord of IndexFirst \<Rightarrow> IndexOutOfRange 0 0
                                               | SliceFirst \<Rightarrow> SliceBounds 1 0),
                 command = None, xstdout = []\<rparr>
            | c # av \<Rightarrow>
                (case exec c av of
                   (out, Some e) \<Rightarrow>
                     \<lparr>xstatus = Panicked (PanicError e), command = Some (c, av), xstdout = []\<rparr>
                 | (out, None) \<Rightarrow>
                     \<lparr>xstatus = Finished, command = Some (c, av), xstdout = out\<rparr>))"
proof -
  have lines: "L = text_lines (data stdin)"
    using assms by (rule Scan_all_success)
  have run: "myXargs_main exec ord (prog # A) stdin =
           (case command_operands ord (A @ L) of
              Inl p \<Rightarrow> xargs_stop p
            | Inr (c, av) \<Rightarrow>
                (case exec c av of
                   (out, Some e) \<Rightarrow>
                     \<lparr>xstatus = Panicked (PanicError e), command = Some (c, av), xstdout = []\<rparr>
                 | (out, None) \<Rightarrow>
                     \<lparr>xstatus = Finished, command = Some (c, av), xstdout = out\<rparr>))"
    using assms by (simp add: myXargs_main_def go_slice_from_def)
  show ?thesis
  proof (cases "A @ L")
    case Nil
    with lines run show ?thesis
      by (simp add: command_operands_Nil xargs_stop_def)
  next
    case (Cons c av)
    with lines run show ?thesis
      by (simp add: command_operands_Cons)
  qed
qed

text \<open>
  The example of the specification: \<^verbatim>\<open>echo a\<close> with the input lines \<^verbatim>\<open>b\<close> and \<^verbatim>\<open>c\<close>
  runs \<^verbatim>\<open>echo a b c\<close> and prints its output.
\<close>

theorem xargs_command_witness:
  "Scan_all ''b\<newline>c\<newline>'' None = ([''b'', ''c''], None)
   \<and> myXargs_main echo_exec gc_order [''myXargs'', ''echo'', ''a'']
        \<lparr>data = ''b\<newline>c\<newline>'', failure = None\<rparr>
       = \<lparr>xstatus = Finished, command = Some (''echo'', [''a'', ''b'', ''c'']),
          xstdout = ''a b c\<newline>''\<rparr>"
proof -
  have scan: "Scan_all ''b\<newline>c\<newline>'' None = ([''b'', ''c''], None)"
    by (simp add: Scan_all_raw_lines scan_eval)
  then have "Scan_all (data \<lparr>data = ''b\<newline>c\<newline>'', failure = None\<rparr>)
               (failure \<lparr>data = ''b\<newline>c\<newline>'', failure = None\<rparr>) = ([''b'', ''c''], None)"
    by simp
  from xargs_command [OF this, of echo_exec gc_order "''myXargs''" "[''echo'', ''a'']"]
  show ?thesis
    using scan by (simp add: echo_exec_def LF_def)
qed

subsection \<open>myWc\<close>

lemma validateFlags_eq:
  "validateFlags l w m =
     (if 1 < length (filter id [l, w, m])
      then Inl (ErrorString ''Only one of -l, -w, -m can be specified'')
      else if l then Inr 3 else if m then Inr 1 else Inr 2)"
  by (cases l; cases w; cases m) (simp_all add: validateFlags_def word_sless_alt)

text \<open>
  Claim C7. With more than one of the three flags, \<open>validateFlags\<close> returns an error and
  \<open>main\<close> panics with it; with exactly one, the mode is 3 (lines), 2 (words) or
  1 (characters) accordingly; with none, the mode is 2 (words).
\<close>

theorem validateFlags_modes:
  "(1 < length (filter id [l, w, m]) \<longrightarrow>
      validateFlags l w m = Inl (ErrorString ''Only one of -l, -w, -m can be specified'')
      \<and> wc_status (myWc_main d sched l w m args)
          = Panicked (PanicError (ErrorString ''Only one of -l, -w, -m can be specified'')))
   \<and> (l \<and> \<not> w \<and> \<not> m \<longrightarrow> validateFlags l w m = Inr 3)
   \<and> (\<not> l \<and> w \<and> \<not> m \<longrightarrow> validateFlags l w m = Inr 2)
   \<and> (\<not> l \<and> \<not> w \<and> m \<longrightarrow> validateFlags l w m = Inr 1)
   \<and> (\<not> l \<and> \<not> w \<and> \<not> m \<longrightarrow> validateFlags l w m = Inr 2)"
  by (cases l; cases w; cases m) (simp_all add: validateFlags_eq myWc_main_def)

theorem validateFlags_modes_witness:
  "validateFlags True False True = Inl (ErrorString ''Only one of -l, -w, -m can be specified'')
   \<and> wc_status (myWc_main small_disk in_order True False True [''a.txt''])
       = Panicked (PanicError (ErrorString ''Only one of -l, -w, -m can be specified''))
   \<and> validateFlags True False False = Inr 3
   \<and> validateFlags False True False = Inr 2
   \<and> validateFlags False False True = Inr 1
   \<and> validateFlags False False False = Inr 2"
  using validateFlags_modes [of True False True small_disk in_order "[''a.txt'']"]
    validateFlags_modes [of True False False small_disk in_order "[''a.txt'']"]
    validateFlags_modes [of False True False small_disk in_order "[''a.txt'']"]
    validateFlags_modes [of False False True small_disk in_order "[''a.txt'']"]
    validateFlags_modes [of False False False small_disk in_order "[''a.txt'']"]
  by simp

text \<open>A file that is processed leaves the counts of the other paths as they are.\<close>

lemma processFile_other: "q \<noteq> p \<Longrightarrow> files (processFile d p mode st) q = files st q"
  by (simp add: processFile_def handleFileErr_def split: sum.splits)

lemma fold_processFile_other:
  "q \<notin> set ps \<Longrightarrow> files (fold (\<lambda>p st. processFile d p mode st) ps st) q = files st q"
  by (induction ps arbitrary: st) (auto simp: processFile_other)

lemma processFile_readable:
  assumes "os_Stat d path = Inr fi" and "IsRegular fi" and "os_Open d path = Inr rd"
  shows "files (processFile d path mode st) path
           = Some (foldl (count_line mode) 0 (fst (Scan_all (data rd) (failure rd))))"
  using assms by (simp add: processFile_def)

lemma fold_processFile_readable:
  assumes "os_Stat d path = Inr fi" and "IsRegular fi" and "os_Open d path = Inr rd"
    and "distinct ps" and "path \<in> set ps"
  shows "files (fold (\<lambda>p st. processFile d p mode st) ps st) path
           = Some (foldl (count_line mode) 0 (fst (Scan_all (data rd) (failure rd))))"
  using assms(4,5)
proof (induction ps arbitrary: st)
  case Nil
  then show ?case by simp
next
  case (Cons p ps)
  show ?case
  proof (cases "p = path")
    case True
    with Cons.prems have "path \<notin> set ps"
      by simp
    then show ?thesis
      using True by (simp add: fold_processFile_other processFile_readable [OF assms(1-3)])
  next
    case False
    with Cons show ?thesis
      by simp
  qed
qed

lemma wc_paths_arrangement:
  "distinct (wc_paths sched args)" "set (wc_paths sched args) = set args"
  by (simp_all add: wc_paths_def)

text \<open>
  What \<open>main\<close> reports for a regular file that opens, in a run in which no map operations
  meet: the fold of the loop body over the tokens the scanner delivers.
\<close>

lemma myWc_main_readable:
  assumes "validateFlags l w m = Inr mode" and "path \<in> set args"
    and "os_Stat d path = Inr fi" and "IsRegular fi" and "os_Open d path = Inr rd"
    and "map_collision sched = None"
  shows "myWc_main d sched l w m args
           = \<lparr>wc_status = Finished,
              wc_final = fold (\<lambda>path st. processFile d path mode st) (wc_paths sched args)
                           (wc_start args)\<rparr>"
    and "files (wc_final (myWc_main d sched l w m args)) path
           = Some (foldl (count_line mode) 0 (fst (Scan_all (data rd) (failure rd))))"
proof -
  from assms(2) have some: "\<not> length args < 1"
    by (cases args) auto
  show run: "myWc_main d sched l w m args
           = \<lparr>wc_status = Finished,
              wc_final = fold (\<lambda>path st. processFile d path mode st) (wc_paths sched args)
                           (wc_start args)\<rparr>"
    using assms(1,6) some by (simp add: myWc_main_def)
  have "path \<in> set (wc_paths sched args)"
    using assms(2) by (simp add: wc_paths_arrangement)
  with wc_paths_arrangement(1) [of sched args]
  show "files (wc_final (myWc_main d sched l w m args)) path
           = Some (foldl (count_line mode) 0 (fst (Scan_all (data rd) (failure rd))))"
    unfolding run using fold_processFile_readable [OF assms(3-5)] by simp
qed

lemma foldl_count_lines: "foldl (count_line 3) a ls = a + int (length ls)"
  by (induction ls arbitrary: a) (simp_all add: count_line_def)

lemma foldl_count_words:
  "foldl (count_line 2) a ls = a + (\<Sum>l\<leftarrow>ls. int (length (Fields l)))"
  by (induction ls arbitrary: a) (simp_all add: count_line_def)

lemma foldl_count_chars:
  "foldl (count_line 1) a ls = a + (\<Sum>l\<leftarrow>ls. int (RuneCountInString l) + 1)"
  by (induction ls arbitrary: a) (simp_all add: count_line_def)

text \<open>The count stays between 0 and the length of the data plus one.\<close>

lemma dropCR_length: "length (dropCR l) \<le> length l"
  by (simp add: dropCR_def)

lemma decode_runes_length: "length (decode_runes s) \<le> length s"
proof (induction s rule: decode_runes.induct)
  case (1 s)
  show ?case
  proof (cases "s = []")
    case True
    then show ?thesis by simp
  next
    case False
    then have "0 < rune_width s"
      unfolding rune_width_def by (cases s) (auto split: option.splits)
    moreover have "length (decode_runes (drop (rune_width s) s)) \<le> length s - rune_width s"
      using 1 False by simp
    ultimately show ?thesis
      using False by (subst decode_runes.simps) (cases s, auto)
  qed
qed

lemma field_spans_length:
  "length (field_spans f cur rs) \<le> length rs + (if cur = [] then 0 else 1)"
proof (induction rs arbitrary: cur)
  case Nil
  then show ?case by simp
next
  case (Cons a rs)
  obtain r bs where a: "a = (r, bs)" by (cases a)
  show ?case
    using Cons [of "[]"] Cons [of "cur @ bs"] by (auto simp: a split: if_splits)
qed

lemma Fields_length: "length (Fields l) \<le> length l"
  using field_spans_length [of IsSpace "[]" "decode_runes l"] decode_runes_length [of l]
  by (simp add: Fields_def FieldsFunc_def)

lemma count_line_bound:
  "0 \<le> res \<Longrightarrow> 0 \<le> count_line mode res l \<and> count_line mode res l \<le> res + int (length l) + 1"
  using Fields_length [of l] decode_runes_length [of l]
  by (auto simp: count_line_def RuneCountInString_def)

lemma foldl_count_bound:
  "0 \<le> res \<Longrightarrow> 0 \<le> foldl (count_line mode) res ls
     \<and> foldl (count_line mode) res ls \<le> res + (\<Sum>l\<leftarrow>ls. int (length l) + 1)"
proof (induction ls arbitrary: res)
  case Nil
  then show ?case by simp
next
  case (Cons l ls)
  from count_line_bound [OF Cons.prems, of mode l]
  have step: "0 \<le> count_line mode res l" "count_line mode res l \<le> res + int (length l) + 1"
    by simp_all
  from Cons.IH [OF step(1)] step(2) show ?case
    by simp
qed

lemma line_split_length:
  assumes "bs \<noteq> []"
  shows "length (line_head bs) + 1 + length (line_rest bs)
           \<le> length bs + (if line_rest bs = [] then 1 else 0)"
proof -
  define tw where "tw = takeWhile (\<lambda>c. c \<noteq> LF) bs"
  define dw where "dw = dropWhile (\<lambda>c. c \<noteq> LF) bs"
  have "tw @ dw = bs"
    by (simp add: tw_def dw_def)
  then have len: "length tw + length dw = length bs"
    by (metis length_append)
  have "length tw + 1 + length (drop 1 dw) \<le> length bs + (if drop 1 dw = [] then 1 else 0)"
    using len by (cases dw) auto
  then show ?thesis
    by (simp add: line_head_def line_rest_def tw_def dw_def)
qed

lemma raw_lines_total: "(\<Sum>l\<leftarrow>raw_lines bs. int (length l) + 1) \<le> int (length bs) + 1"
proof (induction bs rule: raw_lines.induct)
  case (1 bs)
  show ?case
  proof (cases "bs = []")
    case True
    then show ?thesis by (simp add: raw_lines.simps)
  next
    case False
    have unfold: "raw_lines bs = line_head bs # raw_lines (line_rest bs)"
      using False by (subst raw_lines.simps) simp
    show ?thesis
    proof (cases "line_rest bs = []")
      case True
      with line_split_length [OF False] show ?thesis
        by (simp add: unfold raw_lines.simps)
    next
      case rest: False
      with line_split_length [OF False] 1 [OF False] show ?thesis
        by (simp add: unfold)
    qed
  qed
qed


lemma sum_scanned_le:
  "(\<Sum>l\<leftarrow>map dropCR (takeWhile P ls). int (length l) + 1) \<le> (\<Sum>l\<leftarrow>ls. int (length l) + 1)"
proof (induction ls)
  case Nil
  then show ?case by simp
next
  case (Cons l ls)
  have "0 \<le> (\<Sum>l\<leftarrow>ls. int (length l) + 1)"
    by (rule sum_list_nonneg) auto
  with Cons dropCR_length [of l] show ?case
    by auto
qed

lemma wc_count_bound:
  "0 \<le> foldl (count_line mode) 0 (fst (Scan_all bs fl))
   \<and> foldl (count_line mode) 0 (fst (Scan_all bs fl)) \<le> int (length bs) + 1"
proof -
  let ?ts = "map dropCR (takeWhile fits (raw_lines bs))"
  have nonneg: "0 \<le> foldl (count_line mode) 0 ?ts"
    using foldl_count_bound [of 0 mode ?ts] by simp
  have "foldl (count_line mode) 0 ?ts \<le> (\<Sum>l\<leftarrow>?ts. int (length l) + 1)"
    using foldl_count_bound [of 0 mode ?ts] by simp
  also have "(\<Sum>l\<leftarrow>?ts. int (length l) + 1) \<le> (\<Sum>l\<leftarrow>raw_lines bs. int (length l) + 1)"
    by (rule sum_scanned_le)
  also have "\<dots> \<le> int (length bs) + 1"
    by (rule raw_lines_total)
  finally show ?thesis
    using nonneg by (simp add: Scan_all_raw_lines)
qed

text \<open>
  For a regular file among the arguments that opens and reads without error, and whose
  lines all fit the scanner's buffer (fewer than 65536 bytes each), the count \<open>main\<close>
  reports for the path, in a run in which no map operations meet, is: with \<^verbatim>\<open>-l\<close> the
  number of lines; with \<^verbatim>\<open>-w\<close> (or with no flag) the sum over the lines of the number of
  fields; with \<^verbatim>\<open>-m\<close> the sum over the lines of the number of code points plus one.
\<close>

lemma wc_counts:
  assumes "path \<in> set args"
    and "os_Stat d path = Inr fi" and "IsRegular fi"
    and "os_Open d path = Inr rd" and "failure rd = None"
    and "list_all fits (raw_lines (data rd))"
    and "map_collision sched = None"
  shows "files (wc_final (myWc_main d sched True False False args)) path
           = Some (int (length (text_lines (data rd))))
       \<and> files (wc_final (myWc_main d sched False True False args)) path
           = Some (\<Sum>l\<leftarrow>text_lines (data rd). int (length (Fields l)))
       \<and> files (wc_final (myWc_main d sched False False False args)) path
           = Some (\<Sum>l\<leftarrow>text_lines (data rd). int (length (Fields l)))
       \<and> files (wc_final (myWc_main d sched False False True args)) path
           = Some (\<Sum>l\<leftarrow>text_lines (data rd). int (RuneCountInString l) + 1)"
proof -
  have scan: "fst (Scan_all (data rd) (failure rd)) = text_lines (data rd)"
    using assms(6) by (simp add: Scan_all_text_lines)
  have modes: "validateFlags True False False = Inr 3" "validateFlags False True False = Inr 2"
    "validateFlags False False False = Inr 2" "validateFlags False False True = Inr 1"
    by (simp_all add: validateFlags_eq)
  show ?thesis
    using modes [THEN myWc_main_readable(2), OF assms(1-4) assms(7)]
    by (simp add: scan foldl_count_lines foldl_count_words foldl_count_chars)
qed

text \<open>
  Claim C3 fails on the code. \<^verbatim>\<open>big.txt\<close> is a regular file that opens and reads
  without error, and it has one line, of 65536 bytes. Run as \<^verbatim>\<open>myWc -l big.txt\<close>, the
  scanner stops at that line with \<open>ErrTooLong\<close>; \<open>processFile\<close> does not look at the
  scanner's error, and \<open>main\<close> ends normally and reports the count 0.
\<close>

theorem long_line_counted_zero:
  "IsRegular (info (regular_file ''big.txt'' (replicate MaxScanTokenSize (CHR ''a''))))
   \<and> os_Stat long_line_disk ''big.txt''
       = Inr (info (regular_file ''big.txt'' (replicate MaxScanTokenSize (CHR ''a''))))
   \<and> os_Open long_line_disk ''big.txt''
       = Inr \<lparr>data = replicate MaxScanTokenSize (CHR ''a''), failure = None\<rparr>
   \<and> text_lines (replicate MaxScanTokenSize (CHR ''a''))
       = [replicate MaxScanTokenSize (CHR ''a'')]
   \<and> Scan_all (replicate MaxScanTokenSize (CHR ''a'')) None = ([], Some ErrTooLong)
   \<and> wc_status (myWc_main long_line_disk in_order True False False [''big.txt'']) = Finished
   \<and> wc_stderr (wc_final (myWc_main long_line_disk in_order True False False [''big.txt'']))
       = []
   \<and> files (wc_final (myWc_main long_line_disk in_order True False False [''big.txt'']))
        ''big.txt'' = Some 0"
proof -
  let ?bs = "replicate MaxScanTokenSize (CHR ''a'')"
  let ?run = "myWc_main long_line_disk in_order True False False [''big.txt'']"
  have reg: "IsRegular (info (regular_file ''big.txt'' ?bs))"
    by (simp add: IsRegular_def ModeType_def regular_file_def)
  have st: "os_Stat long_line_disk ''big.txt'' = Inr (info (regular_file ''big.txt'' ?bs))"
    by (simp add: os_Stat_def long_line_disk_def)
  have op: "os_Open long_line_disk ''big.txt'' = Inr \<lparr>data = ?bs, failure = None\<rparr>"
    by (simp add: os_Open_def long_line_disk_def regular_file_def)
  have raw: "raw_lines ?bs = [?bs]"
    by (rule raw_lines_replicate) (simp_all add: LF_def MaxScanTokenSize_pos)
  have no_cr: "dropCR ?bs = ?bs"
    using MaxScanTokenSize_pos by (simp add: dropCR_def CR_def)
  have lines: "text_lines ?bs = [?bs]"
    by (simp add: text_lines_def raw no_cr)
  have scan: "Scan_all ?bs None = ([], Some ErrTooLong)"
    by (simp add: Scan_all_raw_lines raw fits_def)
  have mode: "validateFlags True False False = Inr 3"
    by (simp add: validateFlags_eq)
  have quiet: "map_collision in_order = None"
    by (simp add: in_order_def)
  have paths: "wc_paths in_order [''big.txt''] = [''big.txt'']"
    by (simp add: wc_paths_def in_order_def)
  have run: "?run = \<lparr>wc_status = Finished,
               wc_final = processFile long_line_disk ''big.txt'' 3 (wc_start [''big.txt''])\<rparr>"
    using myWc_main_readable(1) [OF mode _ st reg op quiet, of "[''big.txt'']"]
    by (simp add: paths)
  have count: "files (wc_final ?run) ''big.txt'' = Some 0"
    using myWc_main_readable(2) [OF mode _ st reg op quiet, of "[''big.txt'']"]
    by (simp add: scan)
  have quiet_err: "wc_stderr (wc_final ?run) = []"
    unfolding run by (simp add: processFile_def st reg op wc_start_def)
  from reg st op lines scan run count quiet_err show ?thesis
    by simp
qed

text \<open>
  A run in which the runtime sees the range loop of \<open>main\<close> meet a map operation of the
  first goroutine: the process dies and reports no count.
\<close>

lemma collision_reports_nothing:
  "myWc_main small_disk \<lparr>goroutine_order = [], map_collision = Some 1\<rparr> True False False
       [''a.txt'']
     = \<lparr>wc_status = Thrown ConcurrentMapAccess,
        wc_final = \<lparr>files = Map.empty, wc_stderr = []\<rparr>\<rparr>"
  by (simp add: myWc_main_def validateFlags_eq wc_paths_def wc_start_def processFile_def
        os_Stat_def os_Open_def IsRegular_def ModeType_def small_disk_def regular_file_def)

subsection \<open>myFind\<close>

lemma owner_read_bit: "(m :: 32 word) AND ModePerm AND 0x100 = m AND 0x100"
  by (simp add: ModePerm_def and.assoc)

lemmas find_eval =
  myFind_main_def find_stop_def walkFn_def printEntity_def processExt_def HasSuffix_def
  os_Stat_def IsDir_def IsRegular_def ModeDir_def ModeType_def ModeSymlink_def ModePerm_def
  dir_node_def regular_file_def LF_def

text \<open>
  Claim C8. For an entry the walk visits whose permission bits lack the read bit the
  source tests (0400, the owner's), the function \<open>main\<close> gives to \<^verbatim>\<open>Walk\<close> prints
  nothing on standard output and writes the line \<^verbatim>\<open><path>: Permission denied\<close> on
  standard error, and the walk goes on with the next entry. The outcome depends on the
  mode bits only: it is the same for every environment.
\<close>

theorem unreadable_entry_denied:
  assumes "Mode fi AND 0x100 = 0"
  shows "walkFn ev dirMode fMode slMode exts path (Some fi)
           = Inr ([], [DiagText (path @ '': Permission denied'' @ [LF])])
       \<and> run_walk (walkFn ev dirMode fMode slMode exts) ((path, Some fi) # visits) acc
           = run_walk (walkFn ev dirMode fMode slMode exts) visits
               (acc\<lparr>find_stderr :=
                  find_stderr acc @ [DiagText (path @ '': Permission denied'' @ [LF])]\<rparr>)"
  using assms by (simp add: walkFn_def owner_read_bit)

text \<open>A file of mode 0044: readable by group and others, not by its owner.\<close>

theorem unreadable_entry_denied_witness:
  "Mode \<lparr>Name = ''x.txt'', Mode = 0x024, ModTime = 0\<rparr> AND 0x100 = 0
   \<and> walkFn (find_EvalSymlinks link_world) True True True [] ''d/x.txt''
         (Some \<lparr>Name = ''x.txt'', Mode = 0x024, ModTime = 0\<rparr>)
       = Inr ([], [DiagText ''d/x.txt: Permission denied\<newline>''])"
proof -
  have h: "Mode \<lparr>Name = ''x.txt'', Mode = 0x024, ModTime = 0\<rparr> AND 0x100 = 0"
    by simp
  from unreadable_entry_denied [OF h, of "find_EvalSymlinks link_world" True True True "[]" "''d/x.txt''"]
  show ?thesis
    using h by (simp add: LF_def)
qed

text \<open>
  What \<open>printEntity\<close> prints for a symbolic link when links are listed: the walk path,
  then the resolution of the entry's base name, or \<^verbatim>\<open>[broken]\<close> when that fails.
\<close>

lemma printEntity_symlink:
  assumes "Mode fi AND ModeSymlink \<noteq> 0" and "\<not> IsDir fi"
  shows "printEntity ev path fi dirMode fMode True exts
           = [path @ '' -> '' @ (case ev (Name fi) of Inl err \<Rightarrow> ''[broken]'' | Inr t \<Rightarrow> t) @ [LF]]"
proof -
  have "Mode fi AND ModeType \<noteq> 0"
  proof
    assume "Mode fi AND ModeType = 0"
    then have "(Mode fi AND ModeType) AND ModeSymlink = 0"
      by simp
    moreover have "ModeType AND ModeSymlink = ModeSymlink"
      by (simp add: ModeType_def ModeSymlink_def)
    ultimately show False
      using assms(1) by (simp add: and.assoc)
  qed
  then show ?thesis
    using assms by (simp add: printEntity_def IsRegular_def)
qed

text \<open>
  Claim C2 fails on the code. In the directory \<^verbatim>\<open>d\<close>, \<^verbatim>\<open>link\<close> points to \<^verbatim>\<open>x.txt\<close>
  and resolves to \<^verbatim>\<open>d/x.txt\<close>. The lister, run on \<^verbatim>\<open>d\<close> from its parent, resolves the
  base name \<^verbatim>\<open>link\<close> in the working directory, finds nothing and prints the link as
  broken.
\<close>

theorem resolving_link_printed_broken:
  "find_EvalSymlinks link_world ''d/link'' = Inr ''d/x.txt''
   \<and> myFind_main link_world False False False [] [''d'']
       = \<lparr>find_status = Finished,
          find_stdout = [''d\<newline>'', ''d/link -> [broken]\<newline>'', ''d/x.txt\<newline>''],
          find_stderr = []\<rparr>"
  by (simp add: find_eval link_world_def)

subsection \<open>myRotate\<close>

lemmas rotate_eval =
  myRotate_main_def rotate_stop_def archive_one_def fillArchive_def removeArchive_def
  moveArchive_def getArchiveName_def CutSuffix_def HasSuffix_def os_Stat_def os_Open_def
  show_int_def show_nat.simps digit_def split_flag_def IsDir_def ModeDir_def LF_def
  new_file_def

lemma HasSuffix_append: "HasSuffix (B @ s) s"
  by (simp add: HasSuffix_def)

lemma getArchiveName_log:
  assumes "Name fi = B @ ''.log''"
  shows "getArchiveName fi = ((B @ ''_'' @ show_int (sint (ModTime fi)) @ ''.tar.gz'', True), [])"
  using assms HasSuffix_append [of B "''.log''"]
  by (simp add: getArchiveName_def CutSuffix_def)

text \<open>The goroutine touches no path of the disk but the archive name, here and in the
  destination.\<close>

lemma archive_one_frame:
  assumes "os_Stat (rot_disk st) path = Inr fi" and "getArchiveName fi = ((name, ok), diags)"
    and "p \<noteq> name" and "p \<noteq> dest @ ''/'' @ name"
  shows "rot_disk (archive_one env dest path st) p = rot_disk st p"
  using assms
  by (cases ok)
     (auto simp: archive_one_def removeArchive_def moveArchive_def Let_def
           split: sum.splits prod.splits option.splits)

text \<open>
  Claim C5. For a file whose name is \<open>B\<close> followed by \<^verbatim>\<open>.log\<close> and whose modification
  time is \<open>T\<close> in Unix seconds, the archive name is exactly \<open>N = B_T.tar.gz\<close>, with \<open>T\<close> in
  decimal. When the file \<open>N\<close> can be created and \<open>fillArchive\<close> returns no error, the
  goroutine leaves the archive on the disk under \<open>N\<close>: in the working directory when there
  is no destination or \<^verbatim>\<open>mv\<close> fails, and as \<open>N\<close> in the destination directory (and no
  longer in the working directory) when \<^verbatim>\<open>mv\<close> succeeds. Whatever happens, no other path
  of the disk changes.
\<close>

theorem archive_name:
  assumes "Name fi = B @ ''.log''"
  shows "(let N = B @ ''_'' @ show_int (sint (ModTime fi)) @ ''.tar.gz'' in
          getArchiveName fi = ((N, True), [])
          \<and> (os_Stat (rot_disk st) path = Inr fi \<and> create_result env N = Inr ci
               \<and> fillArchive env ((rot_disk st)(N := Inr (new_file ci []))) path fi
                   = (None, out, broke) \<longrightarrow>
              archive_one env dest path st =
                (let archive = Inr (new_file ci (archive_bytes env path broke));
                     st' = \<lparr>rot_disk = (rot_disk st)(N := archive),
                            rot_stdout = rot_stdout st @ [''CREATED: '' @ N @ [LF]] @ out,
                            rot_stderr = rot_stderr st\<rparr>
                 in if dest = [] then st'
                    else (case run_command env ''mv'' [N, dest] (rot_disk st') of
                            (mv_out, None) \<Rightarrow>
                              st'\<lparr>rot_disk := (rot_disk st')
                                    (N := Inl ErrNotExist, dest @ ''/'' @ N := archive),
                                  rot_stdout := rot_stdout st' @ [mv_out]\<rparr>
                          | (mv_out, Some e) \<Rightarrow>
                              st'\<lparr>rot_stderr := rot_stderr st' @ [DiagError e]\<rparr>)))
          \<and> (os_Stat (rot_disk st) path = Inr fi \<and> p \<noteq> N \<and> p \<noteq> dest @ ''/'' @ N \<longrightarrow>
              rot_disk (archive_one env dest path st) p = rot_disk st p))"
proof -
  let ?N = "B @ ''_'' @ show_int (sint (ModTime fi)) @ ''.tar.gz''"
  have name: "getArchiveName fi = ((?N, True), [])"
    using assms by (rule getArchiveName_log)
  have made: "archive_one env dest path st =
                (let archive = Inr (new_file ci (archive_bytes env path broke));
                     st' = \<lparr>rot_disk = (rot_disk st)(?N := archive),
                            rot_stdout = rot_stdout st @ [''CREATED: '' @ ?N @ [LF]] @ out,
                            rot_stderr = rot_stderr st\<rparr>
                 in if dest = [] then st'
                    else (case run_command env ''mv'' [?N, dest] (rot_disk st') of
                            (mv_out, None) \<Rightarrow>
                              st'\<lparr>rot_disk := (rot_disk st')
                                    (?N := Inl ErrNotExist, dest @ ''/'' @ ?N := archive),
                                  rot_stdout := rot_stdout st' @ [mv_out]\<rparr>
                          | (mv_out, Some e) \<Rightarrow>
                              st'\<lparr>rot_stderr := rot_stderr st' @ [DiagError e]\<rparr>))"
    if "os_Stat (rot_disk st) path = Inr fi" and "create_result env ?N = Inr ci"
      and "fillArchive env ((rot_disk st)(?N := Inr (new_file ci []))) path fi = (None, out, broke)"
    using that name
    by (simp add: archive_one_def moveArchive_def Let_def split: prod.splits option.splits)
  have frame: "rot_disk (archive_one env dest path st) p = rot_disk st p"
    if "os_Stat (rot_disk st) path = Inr fi" and "p \<noteq> ?N" and "p \<noteq> dest @ ''/'' @ ?N"
    using that(1) name that(2,3) by (rule archive_one_frame)
  from name made frame show ?thesis
    unfolding Let_def by blast
qed

text \<open>
  The example of the specification: \<^verbatim>\<open>app.log\<close>, modified at 1700000000, archived to
  \<^verbatim>\<open>backup\<close>.
\<close>

theorem archive_name_witness:
  "getArchiveName (info (regular_file ''app.log'' ''started\<newline>''))
       = ((''app_1700000000.tar.gz'', True), [])
   \<and> rot_disk (archive_one plain_env ''backup'' ''app.log''
         \<lparr>rot_disk = log_disk, rot_stdout = [], rot_stderr = []\<rparr>) ''backup/app_1700000000.tar.gz''
       = Inr (new_file \<lparr>Name = ''app_1700000000.tar.gz'', Mode = 0x1A4, ModTime = 1700000100\<rparr>
           ''complete app.log'')
   \<and> rot_disk (archive_one plain_env ''backup'' ''app.log''
         \<lparr>rot_disk = log_disk, rot_stdout = [], rot_stderr = []\<rparr>) ''app_1700000000.tar.gz''
       = Inl ErrNotExist
   \<and> rot_stdout (archive_one plain_env ''backup'' ''app.log''
         \<lparr>rot_disk = log_disk, rot_stdout = [], rot_stderr = []\<rparr>)
       = [''CREATED: app_1700000000.tar.gz\<newline>'', ''ARCHIVED: app.log\<newline>'', []]
   \<and> rot_disk (archive_one plain_env ''backup'' ''app.log''
         \<lparr>rot_disk = log_disk, rot_stdout = [], rot_stderr = []\<rparr>) ''secret.log''
       = log_disk ''secret.log''"
proof -
  let ?fi = "info (regular_file ''app.log'' ''started\<newline>'')"
  let ?st = "\<lparr>rot_disk = log_disk, rot_stdout = [], rot_stderr = []\<rparr>"
  let ?ci = "\<lparr>Name = ''app_1700000000.tar.gz'', Mode = 0x1A4, ModTime = 1700000100\<rparr>"
  have h: "Name ?fi = ''app'' @ ''.log''"
    by (simp add: regular_file_def)
  have T: "show_int (sint (ModTime ?fi)) = ''1700000000''"
    by (simp add: regular_file_def show_int_def show_nat.simps digit_def)
  have st: "os_Stat (rot_disk ?st) ''app.log'' = Inr ?fi"
    by (simp add: os_Stat_def log_disk_def)
  have cr: "create_result plain_env ''app_1700000000.tar.gz'' = Inr ?ci"
    by (simp add: plain_env_def)
  have fill: "fillArchive plain_env
                ((rot_disk ?st)(''app_1700000000.tar.gz'' := Inr (new_file ?ci []))) ''app.log'' ?fi
              = (None, [''ARCHIVED: app.log\<newline>''], None)"
    by (simp add: fillArchive_def os_Open_def log_disk_def regular_file_def plain_env_def LF_def)
  have mv: "run_command plain_env ''mv'' [''app_1700000000.tar.gz'', ''backup''] D = ([], None)" for D
    by (simp add: plain_env_def)
  have bytes: "archive_bytes plain_env ''app.log'' None = ''complete app.log''"
    by (simp add: plain_env_def)
  from archive_name [OF h, of ?st "''app.log''" plain_env ?ci "[''ARCHIVED: app.log\<newline>'']" None
      "''backup''" "''secret.log''"]
  show ?thesis
    using st cr fill by (simp add: T Let_def mv bytes LF_def)
qed

text \<open>
  Without a destination the flag keeps its default, the empty string, and
  \<^verbatim>\<open>os.Stat("")\<close> fails: \<open>main\<close> panics before it looks at any file.
\<close>

lemma no_flag_no_dest:
  assumes "flag_Parse [] rest = Inr ([], positional)"
  shows "myRotate_main env (prog # rest) d = rotate_stop (Panicked (PanicError ErrNotExist)) d []"
  using assms by (simp add: myRotate_main_def os_Stat_def)

text \<open>
  Claim C1 fails on the code. Run as \<^verbatim>\<open>myRotate app.log\<close>, with no \<^verbatim>\<open>-a\<close>, in a
  directory that holds \<^verbatim>\<open>app.log\<close>, the archiver panics at startup with the error of
  \<^verbatim>\<open>os.Stat("")\<close>; no file is processed and no archive is created.
\<close>

theorem no_destination_panics:
  "myRotate_main plain_env [''myRotate'', ''app.log''] log_disk
     = \<lparr>rot_status = Panicked (PanicError ErrNotExist), rot_files = [],
        rot_final = \<lparr>rot_disk = log_disk, rot_stdout = [], rot_stderr = []\<rparr>\<rparr>"
  by (simp add: myRotate_main_def os_Stat_def rotate_stop_def)

text \<open>
  When \<open>fillArchive\<close> returns an error, the goroutine reports it and runs \<open>removeArchive\<close>
  on what has been written.
\<close>

lemma failed_archive_removal:
  assumes "os_Stat (rot_disk st) path = Inr fi"
    and "getArchiveName fi = ((name, True), diags)"
    and "create_result env name = Inr ci"
    and "fillArchive env ((rot_disk st)(name := Inr (new_file ci []))) path fi
           = (Some err, out, broke)"
  shows "archive_one env dest path st =
           removeArchive env name
             \<lparr>rot_disk = (rot_disk st)(name := Inr (new_file ci (archive_bytes env path broke))),
              rot_stdout = rot_stdout st @ [''CREATED: '' @ name @ [LF]] @ out,
              rot_stderr = rot_stderr st @ diags @ [DiagError err]\<rparr>"
  using assms by (simp add: archive_one_def)

text \<open>
  Claim C4 fails on the code, in two ways. When the stream of \<^verbatim>\<open>./-x.log\<close> breaks while
  \<^verbatim>\<open>io.Copy\<close> writes it, \<open>fillArchive\<close> returns the error and \<open>removeArchive\<close> runs
  \<^verbatim>\<open>rm\<close> with the archive name \<^verbatim>\<open>-x_1700000000.tar.gz\<close>, which \<^verbatim>\<open>rm\<close> reads as options:
  the command fails and the partial archive stays in the working directory. And when the
  stream of \<^verbatim>\<open>app.log\<close> breaks at its last write, made by the deferred \<^verbatim>\<open>Close\<close>,
  \<open>fillArchive\<close> returns nil: the partial archive is announced as archived, nothing is
  reported, and it is moved to the destination.
\<close>

theorem partial_archive_left:
  "fillArchive dash_env log_disk ''./-x.log'' (info (regular_file ''-x.log'' ''x\<newline>''))
     = (Some ErrNoSpace, [], Some StepCopy)
   \<and> run_command dash_env ''rm'' [''-x_1700000000.tar.gz''] log_disk
     = (''rm: invalid option\<newline>'', Some (ErrExit 1))
   \<and> rot_stderr (rot_final (myRotate_main dash_env [''myRotate'', ''-a'', ''backup'', ''./-x.log'']
         log_disk)) = [DiagError ErrNoSpace, DiagError (ErrExit 1)]
   \<and> rot_disk (rot_final (myRotate_main dash_env [''myRotate'', ''-a'', ''backup'', ''./-x.log'']
         log_disk)) ''-x_1700000000.tar.gz''
       = Inr (new_file \<lparr>Name = ''-x_1700000000.tar.gz'', Mode = 0x1A4, ModTime = 1700000100\<rparr>
           ''partial ./-x.log'')
   \<and> fillArchive full_env log_disk ''app.log'' (info (regular_file ''app.log'' ''started\<newline>''))
       = (None, [''ARCHIVED: app.log\<newline>''], Some StepClose)
   \<and> rot_disk (rot_final (myRotate_main full_env [''myRotate'', ''-a'', ''backup'', ''app.log'']
         log_disk)) ''backup/app_1700000000.tar.gz''
       = Inr (new_file \<lparr>Name = ''app_1700000000.tar.gz'', Mode = 0x1A4, ModTime = 1700000100\<rparr>
           ''partial app.log'')
   \<and> rot_stderr (rot_final (myRotate_main full_env [''myRotate'', ''-a'', ''backup'', ''app.log'']
         log_disk)) = []"
  by (simp add: rotate_eval log_disk_def dash_env_def full_env_def plain_env_def
        regular_file_def dir_node_def)

lemma flag_single_token:
  assumes "dir \<noteq> []" and "length f1 < 2 \<or> f1 ! 0 \<noteq> CHR ''-''"
  shows "flag_Parse [] ((''-a='' @ dir) # f1 # others) = Inr (dir, f1 # others)"
  using assms by (cases dir) (auto simp: split_flag_def)

text \<open>
  Claim C9. When the destination flag has a non-empty value, \<open>main\<close> stops at startup
  unless the destination is a directory, and otherwise runs the goroutine on exactly the
  arguments from index 3 on (it panics when there are none). So when the flag is given as
  the single token \<^verbatim>\<open>-a=dir\<close> and \<open>f1\<close> is the first positional argument, the run is
  that of the goroutine on the arguments after \<open>f1\<close>: \<open>f1\<close> is not processed, and nothing
  is written about it.
\<close>

theorem files_from_index_3:
  "(flag_Parse [] rest = Inr (dest, positional) \<and> dest \<noteq> [] \<longrightarrow>
      myRotate_main env (prog # rest) d =
        (case os_Stat d dest of
           Inl err \<Rightarrow>
             \<lparr>rot_status = Panicked (PanicError err), rot_files = [],
              rot_final = \<lparr>rot_disk = d, rot_stdout = [], rot_stderr = []\<rparr>\<rparr>
         | Inr di \<Rightarrow>
             if \<not> IsDir di then
               \<lparr>rot_status = Finished, rot_files = [],
                rot_final = \<lparr>rot_disk = d, rot_stdout = [],
                             rot_stderr = [DiagText (dest @ '' is not a directory'' @ [LF])]\<rparr>\<rparr>
             else if length (prog # rest) < 3 then
               \<lparr>rot_status = Panicked (SliceBounds 3 (length (prog # rest))), rot_files = [],
                rot_final = \<lparr>rot_disk = d, rot_stdout = [], rot_stderr = []\<rparr>\<rparr>
             else if drop 3 (prog # rest) = [] then
               \<lparr>rot_status = Panicked (PanicString ''No files provided for archiving''),
                rot_files = [],
                rot_final = \<lparr>rot_disk = d, rot_stdout = [], rot_stderr = []\<rparr>\<rparr>
             else
               \<lparr>rot_status = Finished, rot_files = drop 3 (prog # rest),
                rot_final =
                  fold (archive_one env dest) (drop 3 (prog # rest))
                    \<lparr>rot_disk = d, rot_stdout = [], rot_stderr = []\<rparr>\<rparr>))
   \<and> (dir \<noteq> [] \<and> (length f1 < 2 \<or> f1 ! 0 \<noteq> CHR ''-'') \<and> os_Stat d dir = Inr di \<and> IsDir di \<longrightarrow>
      myRotate_main env (prog # (''-a='' @ dir) # f1 # others) d =
        (if others = [] then
           \<lparr>rot_status = Panicked (PanicString ''No files provided for archiving''),
            rot_files = [],
            rot_final = \<lparr>rot_disk = d, rot_stdout = [], rot_stderr = []\<rparr>\<rparr>
         else
           \<lparr>rot_status = Finished, rot_files = others,
            rot_final =
              fold (archive_one env dir) others
                \<lparr>rot_disk = d, rot_stdout = [], rot_stderr = []\<rparr>\<rparr>))"
proof (intro conjI impI)
  assume "flag_Parse [] rest = Inr (dest, positional) \<and> dest \<noteq> []"
  then show "myRotate_main env (prog # rest) d =
        (case os_Stat d dest of
           Inl err \<Rightarrow>
             \<lparr>rot_status = Panicked (PanicError err), rot_files = [],
              rot_final = \<lparr>rot_disk = d, rot_stdout = [], rot_stderr = []\<rparr>\<rparr>
         | Inr di \<Rightarrow>
             if \<not> IsDir di then
               \<lparr>rot_status = Finished, rot_files = [],
                rot_final = \<lparr>rot_disk = d, rot_stdout = [],
                             rot_stderr = [DiagText (dest @ '' is not a directory'' @ [LF])]\<rparr>\<rparr>
             else if length (prog # rest) < 3 then
               \<lparr>rot_status = Panicked (SliceBounds 3 (length (prog # rest))), rot_files = [],
                rot_final = \<lparr>rot_disk = d, rot_stdout = [], rot_stderr = []\<rparr>\<rparr>
             else if drop 3 (prog # rest) = [] then
               \<lparr>rot_status = Panicked (PanicString ''No files provided for archiving''),
                rot_files = [],
                rot_final = \<lparr>rot_disk = d, rot_stdout = [], rot_stderr = []\<rparr>\<rparr>
             else
               \<lparr>rot_status = Finished, rot_files = drop 3 (prog # rest),
                rot_final =
                  fold (archive_one env dest) (drop 3 (prog # rest))
                    \<lparr>rot_disk = d, rot_stdout = [], rot_stderr = []\<rparr>\<rparr>)"
    by (auto simp: myRotate_main_def rotate_stop_def Let_def split: sum.splits)
next
  assume h: "dir \<noteq> [] \<and> (length f1 < 2 \<or> f1 ! 0 \<noteq> CHR ''-'') \<and> os_Stat d dir = Inr di \<and> IsDir di"
  then have "flag_Parse [] ((''-a='' @ dir) # f1 # others) = Inr (dir, f1 # others)"
    by (intro flag_single_token) auto
  with h show "myRotate_main env (prog # (''-a='' @ dir) # f1 # others) d =
        (if others = [] then
           \<lparr>rot_status = Panicked (PanicString ''No files provided for archiving''),
            rot_files = [],
            rot_final = \<lparr>rot_disk = d, rot_stdout = [], rot_stderr = []\<rparr>\<rparr>
         else
           \<lparr>rot_status = Finished, rot_files = others,
            rot_final =
              fold (archive_one env dir) others
                \<lparr>rot_disk = d, rot_stdout = [], rot_stderr = []\<rparr>\<rparr>)"
    by (auto simp: myRotate_main_def rotate_stop_def Let_def)
qed

text \<open>
  With \<^verbatim>\<open>-a backup\<close> both files are processed. With \<^verbatim>\<open>-a=backup\<close> only
  \<^verbatim>\<open>secret.log\<close> is: nothing is printed about \<^verbatim>\<open>app.log\<close> and no archive of it is in
  the working directory or in the destination.
\<close>

theorem files_from_index_3_witness:
  "myRotate_main plain_env [''myRotate'', ''-a'', ''backup'', ''app.log'', ''secret.log''] log_disk
     = \<lparr>rot_status = Finished, rot_files = [''app.log'', ''secret.log''],
        rot_final = fold (archive_one plain_env ''backup'') [''app.log'', ''secret.log'']
                      \<lparr>rot_disk = log_disk, rot_stdout = [], rot_stderr = []\<rparr>\<rparr>
   \<and> myRotate_main plain_env [''myRotate'', ''-a=backup'', ''app.log'', ''secret.log''] log_disk
     = \<lparr>rot_status = Finished, rot_files = [''secret.log''],
        rot_final = archive_one plain_env ''backup'' ''secret.log''
                      \<lparr>rot_disk = log_disk, rot_stdout = [], rot_stderr = []\<rparr>\<rparr>
   \<and> rot_stdout (rot_final (myRotate_main plain_env
         [''myRotate'', ''-a=backup'', ''app.log'', ''secret.log''] log_disk))
     = [''CREATED: secret_1700000000.tar.gz\<newline>'', []]
   \<and> rot_stderr (rot_final (myRotate_main plain_env
         [''myRotate'', ''-a=backup'', ''app.log'', ''secret.log''] log_disk))
     = [DiagError ErrPermission]
   \<and> rot_disk (rot_final (myRotate_main plain_env
         [''myRotate'', ''-a=backup'', ''app.log'', ''secret.log''] log_disk))
        ''backup/app_1700000000.tar.gz'' = Inl ErrNotExist
   \<and> rot_disk (rot_final (myRotate_main plain_env
         [''myRotate'', ''-a=backup'', ''app.log'', ''secret.log''] log_disk))
        ''app_1700000000.tar.gz'' = Inl ErrNotExist"
proof -
  let ?st = "\<lparr>rot_disk = log_disk, rot_stdout = [], rot_stderr = []\<rparr>"
  have p: "flag_Parse [] [''-a'', ''backup'', ''app.log'', ''secret.log'']
             = Inr (''backup'', [''app.log'', ''secret.log''])"
    by (simp add: split_flag_def)
  have st: "os_Stat log_disk ''backup'' = Inr (info (dir_node ''backup''))"
    by (simp add: os_Stat_def log_disk_def)
  have dir: "IsDir (info (dir_node ''backup''))"
    by (simp add: IsDir_def ModeDir_def dir_node_def)
  have one: "archive_one plain_env ''backup'' ''secret.log'' ?st
               = \<lparr>rot_disk = log_disk(''secret_1700000000.tar.gz'' := Inl ErrNotExist),
                  rot_stdout = [''CREATED: secret_1700000000.tar.gz\<newline>'', []],
                  rot_stderr = [DiagError ErrPermission]\<rparr>"
    by (simp add: archive_one_def fillArchive_def removeArchive_def getArchiveName_def
          CutSuffix_def HasSuffix_def os_Stat_def os_Open_def show_int_def show_nat.simps
          digit_def LF_def new_file_def log_disk_def plain_env_def regular_file_def)
  have gone: "log_disk ''backup/app_1700000000.tar.gz'' = Inl ErrNotExist"
    "log_disk ''app_1700000000.tar.gz'' = Inl ErrNotExist"
    by (simp_all add: log_disk_def)
  from files_from_index_3 [of "[''-a'', ''backup'', ''app.log'', ''secret.log'']" "''backup''"
      "[''app.log'', ''secret.log'']" plain_env "''myRotate''" log_disk "''backup''" "''app.log''"
      "info (dir_node ''backup'')" "[''secret.log'']"]
  show ?thesis
    using p st dir by (simp add: one gone)
qed

end
